theory Spec2Isabelle
  imports Complex_Main "HOL-Library.Word"
begin

chapter \<open>BamBlend: the Bambu Studio 3MF reader and writer\<close>

text \<open>
  A shallow embedding of the parts of \<^verbatim>\<open>core/transform.py\<close>, \<^verbatim>\<open>core/parser.py\<close> and
  \<^verbatim>\<open>core/serializer.py\<close> that the specification makes claims about. Python strings
  are lists of characters with code points below 256, Python integers are \<open>int\<close>,
  a raised exception is the left summand of a sum type, and a dictionary whose order is
  observable is an association list with unique keys.
\<close>

section \<open>Python built-ins used by the code\<close>

datatype py_error = ValueError | TypeError | IndexError | UnicodeDecodeError

subsection \<open>Whitespace, \<^verbatim>\<open>str.strip\<close> and \<^verbatim>\<open>str.split\<close>\<close>

text \<open>
  \<^verbatim>\<open>str.isspace\<close> on the code points below 256: TAB, LF, VT, FF, CR, the four
  separators FS, GS, RS, US, the space, NEL and the no-break space.
\<close>

definition is_space :: "char \<Rightarrow> bool" where
  "is_space c = (let n = (of_char c :: nat) in
     (9 \<le> n \<and> n \<le> 13) \<or> (28 \<le> n \<and> n \<le> 32) \<or> n = 133 \<or> n = 160)"

definition strip :: "string \<Rightarrow> string" where
  "strip s = rev (dropWhile is_space (rev (dropWhile is_space s)))"

text \<open>
  \<^verbatim>\<open>s.split()\<close> without a separator: the maximal runs of non-whitespace characters,
  from left to right. \<open>cur\<close> is the token being read.
\<close>

fun split_from :: "string \<Rightarrow> string \<Rightarrow> string list" where
  "split_from cur [] = (if cur = [] then [] else [cur])"
| "split_from cur (c # cs) =
     (if is_space c then (if cur = [] then split_from [] cs else cur # split_from [] cs)
      else split_from (cur @ [c]) cs)"

definition split :: "string \<Rightarrow> string list" where
  "split s = split_from [] s"

subsection \<open>\<^verbatim>\<open>float(str)\<close>\<close>

text \<open>
  The grammar that \<^verbatim>\<open>float\<close> accepts (Python language reference, built-in functions):
  an optional sign, then \<^verbatim>\<open>inf\<close>, \<^verbatim>\<open>infinity\<close> or \<^verbatim>\<open>nan\<close> in any case, or a decimal
  number with an optional exponent, where digits may be grouped with single underscores.
  Any other token raises \<^verbatim>\<open>ValueError\<close>.
\<close>

definition is_digit :: "char \<Rightarrow> bool" where
  "is_digit c = (c \<in> set ''0123456789'')"

fun digitpart :: "string \<Rightarrow> bool" where
  "digitpart [] = False"
| "digitpart [c] = is_digit c"
| "digitpart (c # d # cs) =
     (is_digit c \<and> (if d = CHR ''_'' then digitpart cs else digitpart (d # cs)))"

definition number :: "string \<Rightarrow> bool" where
  "number s =
     (let a = takeWhile (\<lambda>c. c \<noteq> CHR ''.'') s; b = dropWhile (\<lambda>c. c \<noteq> CHR ''.'') s
      in case b of
           [] \<Rightarrow> digitpart a
         | _ # fr \<Rightarrow> if fr = [] then digitpart a else (a = [] \<or> digitpart a) \<and> digitpart fr)"

definition unsigned :: "string \<Rightarrow> string" where
  "unsigned s = (case s of [] \<Rightarrow> [] | c # cs \<Rightarrow> if c = CHR ''+'' \<or> c = CHR ''-'' then cs else s)"

definition floatnumber :: "string \<Rightarrow> bool" where
  "floatnumber s =
     (let is_e = (\<lambda>c. c = CHR ''e'' \<or> c = CHR ''E'');
          m = takeWhile (\<lambda>c. \<not> is_e c) s; x = dropWhile (\<lambda>c. \<not> is_e c) s
      in case x of
           [] \<Rightarrow> number m
         | _ # ex \<Rightarrow> number m \<and> digitpart (unsigned ex))"

definition lower :: "char \<Rightarrow> char" where
  "lower c = (let n = (of_char c :: nat) in if 65 \<le> n \<and> n \<le> 90 then char_of (n + 32) else c)"

definition float_literal :: "string \<Rightarrow> bool" where
  "float_literal s =
     (let a = unsigned s
      in map lower a \<in> set [''inf'', ''infinity'', ''nan''] \<or> floatnumber a)"

text \<open>
  Floating-point values stay symbolic: a value is what \<^verbatim>\<open>float\<close> returns for a literal,
  or a product of two values. No rounding is modelled, so two terms that are equal here
  are equal floats, and nothing is concluded from two terms being different.
\<close>

datatype pyfloat = FloatOf string | FMul pyfloat pyfloat

definition py_float :: "string \<Rightarrow> py_error + pyfloat" where
  "py_float s = (if float_literal s then Inr (FloatOf s) else Inl ValueError)"

text \<open>A list comprehension over a call that may raise: the first failure is the result.\<close>

fun collect :: "('a \<Rightarrow> py_error + 'b) \<Rightarrow> 'a list \<Rightarrow> py_error + 'b list" where
  "collect f [] = Inr []"
| "collect f (x # xs) =
     (case f x of
        Inl e \<Rightarrow> Inl e
      | Inr y \<Rightarrow> (case collect f xs of Inl e \<Rightarrow> Inl e | Inr ys \<Rightarrow> Inr (y # ys)))"

section \<open>Transform codec (\<^verbatim>\<open>core/transform.py\<close>)\<close>

type_synonym matrix = "pyfloat list list"

definition MM_TO_M :: pyfloat where
  "MM_TO_M = FloatOf ''0.001''"

definition Identity4 :: matrix where
  "Identity4 =
     [[FloatOf ''1.0'', FloatOf ''0.0'', FloatOf ''0.0'', FloatOf ''0.0''],
      [FloatOf ''0.0'', FloatOf ''1.0'', FloatOf ''0.0'', FloatOf ''0.0''],
      [FloatOf ''0.0'', FloatOf ''0.0'', FloatOf ''1.0'', FloatOf ''0.0''],
      [FloatOf ''0.0'', FloatOf ''0.0'', FloatOf ''0.0'', FloatOf ''1.0'']]"

text \<open>\<open>None\<close> is a missing transform (Python's \<^verbatim>\<open>None\<close>), which \<^verbatim>\<open>not transform_str\<close> accepts.\<close>

definition parse_3mf_transform :: "string option \<Rightarrow> pyfloat \<Rightarrow> py_error + matrix" where
  "parse_3mf_transform transform_str scale =
     (case transform_str of
        None \<Rightarrow> Inr Identity4
      | Some s \<Rightarrow>
          if s = [] \<or> strip s = [] then Inr Identity4
          else (case collect py_float (split (strip s)) of
                  Inl e \<Rightarrow> Inl e
                | Inr vals \<Rightarrow>
                    if length vals \<noteq> 12 then Inr Identity4
                    else Inr
                      [[vals ! 0, vals ! 3, vals ! 6, FMul (vals ! 9) scale],
                       [vals ! 1, vals ! 4, vals ! 7, FMul (vals ! 10) scale],
                       [vals ! 2, vals ! 5, vals ! 8, FMul (vals ! 11) scale],
                       [FloatOf ''0.0'', FloatOf ''0.0'', FloatOf ''0.0'', FloatOf ''1.0'']]))"

section \<open>More built-ins: \<^verbatim>\<open>int(str)\<close>, dictionaries, element trees\<close>

text \<open>
  \<^verbatim>\<open>int(s)\<close> for a string: surrounding whitespace is dropped, then an optional sign and
  decimal digits, which may be grouped with single underscores. Anything else raises
  \<^verbatim>\<open>ValueError\<close>; \<^verbatim>\<open>int(None)\<close> raises \<^verbatim>\<open>TypeError\<close>. The whitespace that \<^verbatim>\<open>int\<close> drops
  is narrower than \<^verbatim>\<open>str.isspace\<close>: the separators FS, GS, RS and US are not part of it.
  A string of more than 4300 digits raises \<^verbatim>\<open>ValueError\<close> too (the default limit of
  CPython on the conversion of decimal strings).
\<close>

definition is_int_space :: "char \<Rightarrow> bool" where
  "is_int_space c = (let n = (of_char c :: nat) in
     (9 \<le> n \<and> n \<le> 13) \<or> n = 32 \<or> n = 133 \<or> n = 160)"

definition strip_int :: "string \<Rightarrow> string" where
  "strip_int s = rev (dropWhile is_int_space (rev (dropWhile is_int_space s)))"

definition digit_value :: "char \<Rightarrow> int" where
  "digit_value c = int (of_char c) - 48"

definition decimal :: "string \<Rightarrow> int" where
  "decimal ds = foldl (\<lambda>a c. 10 * a + digit_value c) 0 ds"

definition py_int :: "string \<Rightarrow> py_error + int" where
  "py_int s =
     (let t = strip_int s; d = unsigned t
      in if digitpart d \<and> length (filter is_digit d) \<le> 4300
         then Inr ((if take 1 t = ''-'' then - 1 else 1) * decimal (filter is_digit d))
         else Inl ValueError)"

definition py_int_opt :: "string option \<Rightarrow> py_error + int" where
  "py_int_opt v = (case v of None \<Rightarrow> Inl TypeError | Some s \<Rightarrow> py_int s)"

text \<open>\<^verbatim>\<open>int(el.get(name, 0))\<close>: the default is already an integer.\<close>

definition py_int_default0 :: "string option \<Rightarrow> py_error + int" where
  "py_int_default0 v = (case v of None \<Rightarrow> Inr 0 | Some s \<Rightarrow> py_int s)"

text \<open>
  \<^verbatim>\<open>d[k] = v\<close> on an insertion-ordered dictionary: an existing key keeps its place, a
  new key goes to the end.
\<close>

fun dict_set :: "('k \<times> 'v) list \<Rightarrow> 'k \<Rightarrow> 'v \<Rightarrow> ('k \<times> 'v) list" where
  "dict_set [] k v = [(k, v)]"
| "dict_set ((k', v') # d) k v =
     (if k' = k then (k, v) # d else (k', v') # dict_set d k v)"

text \<open>A loop whose body may raise: the state is threaded through, the first error ends it.\<close>

fun for_each :: "('a \<Rightarrow> 's \<Rightarrow> py_error + 's) \<Rightarrow> 'a list \<Rightarrow> 's \<Rightarrow> py_error + 's" where
  "for_each body [] st = Inr st"
| "for_each body (x # xs) st =
     (case body x st of Inl e \<Rightarrow> Inl e | Inr st' \<Rightarrow> for_each body xs st')"

text \<open>
  An \<^verbatim>\<open>xml.etree.ElementTree\<close> element: tag, attributes, text and children. The parser
  is modelled from the parsed tree on; \<^verbatim>\<open>ET.fromstring\<close> itself is not.
\<close>

datatype xml = Element (el_tag: string) (el_attrib: "(string \<times> string) list")
  (el_text: "string option") (el_children: "xml list")

definition findall :: "xml \<Rightarrow> string \<Rightarrow> xml list" where
  "findall e t = filter (\<lambda>c. el_tag c = t) (el_children e)"

definition find_first :: "xml \<Rightarrow> string \<Rightarrow> xml option" where
  "find_first e t = List.find (\<lambda>c. el_tag c = t) (el_children e)"

definition get :: "xml \<Rightarrow> string \<Rightarrow> string option" where
  "get e a = map_of (el_attrib e) a"

definition get_or :: "xml \<Rightarrow> string \<Rightarrow> string \<Rightarrow> string" where
  "get_or e a d = (case get e a of None \<Rightarrow> d | Some v \<Rightarrow> v)"

section \<open>Parser (\<^verbatim>\<open>core/parser.py\<close>)\<close>

definition NS_CORE :: string where
  "NS_CORE = ''http://schemas.microsoft.com/3dmanufacturing/core/2015/02''"

definition NS_PROD :: string where
  "NS_PROD = ''http://schemas.microsoft.com/3dmanufacturing/production/2015/06''"

definition qn :: "string \<Rightarrow> string \<Rightarrow> string" where
  "qn ns t = ''{'' @ ns @ ''}'' @ t"

subsection \<open>The assembly root, \<^verbatim>\<open>_parse_assembly\<close>\<close>

record component =
  comp_path :: string
  comp_objectid :: int
  comp_uuid :: string
  comp_transform :: string

record assembly_object =
  obj_id :: int
  obj_uuid :: string
  obj_name :: string
  obj_extruder :: int
  obj_components :: "component list"

record build_item =
  bi_objectid :: int
  bi_uuid :: string
  bi_transform :: string
  bi_printable :: bool

definition parse_metadata :: "xml \<Rightarrow> (string \<times> string) list" where
  "parse_metadata tree =
     foldl (\<lambda>metadata m.
        dict_set metadata (get_or m ''name'' [])
          (strip (case el_text m of None \<Rightarrow> [] | Some t \<Rightarrow> t)))
       [] (findall tree (qn NS_CORE ''metadata''))"

definition parse_component :: "xml \<Rightarrow> py_error + component" where
  "parse_component c =
     (case py_int_default0 (get c ''objectid'') of
        Inl e \<Rightarrow> Inl e
      | Inr oid \<Rightarrow> Inr \<lparr>comp_path = get_or c (qn NS_PROD ''path'') [],
                       comp_objectid = oid,
                       comp_uuid = get_or c (qn NS_PROD ''UUID'') [],
                       comp_transform = get_or c ''transform'' []\<rparr>)"

definition parse_object :: "xml \<Rightarrow> py_error + assembly_object" where
  "parse_object obj_el =
     (case py_int_opt (get obj_el ''id'') of
        Inl e \<Rightarrow> Inl e
      | Inr i \<Rightarrow>
          (case collect parse_component
                  (case find_first obj_el (qn NS_CORE ''components'') of
                     None \<Rightarrow> []
                   | Some comps_el \<Rightarrow> findall comps_el (qn NS_CORE ''component'')) of
             Inl e \<Rightarrow> Inl e
           | Inr comps \<Rightarrow> Inr \<lparr>obj_id = i, obj_uuid = get_or obj_el (qn NS_PROD ''UUID'') [],
                               obj_name = [], obj_extruder = 1, obj_components = comps\<rparr>))"

definition parse_objects :: "xml \<Rightarrow> py_error + (int \<times> assembly_object) list" where
  "parse_objects tree =
     (case find_first tree (qn NS_CORE ''resources'') of
        None \<Rightarrow> Inr []
      | Some resources \<Rightarrow>
          for_each (\<lambda>obj_el objects.
              case parse_object obj_el of
                Inl e \<Rightarrow> Inl e
              | Inr obj \<Rightarrow> Inr (dict_set objects (obj_id obj) obj))
            (findall resources (qn NS_CORE ''object'')) [])"

text \<open>The \<^verbatim>\<open><item>\<close> elements that the build loop visits, in file order.\<close>

definition item_elements :: "xml \<Rightarrow> xml list" where
  "item_elements tree =
     (case find_first tree (qn NS_CORE ''build'') of
        None \<Rightarrow> []
      | Some build \<Rightarrow> findall build (qn NS_CORE ''item''))"

definition parse_item :: "xml \<Rightarrow> py_error + build_item" where
  "parse_item item =
     (case py_int_default0 (get item ''objectid'') of
        Inl e \<Rightarrow> Inl e
      | Inr oid \<Rightarrow> Inr \<lparr>bi_objectid = oid,
                       bi_uuid = get_or item (qn NS_PROD ''UUID'') [],
                       bi_transform = get_or item ''transform'' [],
                       bi_printable = (get_or item ''printable'' ''1'' = ''1'')\<rparr>)"

definition parse_assembly ::
  "xml \<Rightarrow> py_error + ((string \<times> string) list \<times> (int \<times> assembly_object) list \<times> build_item list)"
where
  "parse_assembly tree =
     (let metadata = parse_metadata tree
      in case parse_objects tree of
           Inl e \<Rightarrow> Inl e
         | Inr objects \<Rightarrow>
             (case collect parse_item (item_elements tree) of
                Inl e \<Rightarrow> Inl e
              | Inr build_items \<Rightarrow> Inr (metadata, objects, build_items)))"

subsection \<open>\<^verbatim>\<open>slice_info.config\<close>, \<^verbatim>\<open>_parse_slice_info\<close>\<close>

record plate_object =
  po_identify_id :: string
  po_name :: string
  po_skipped :: bool

record filament =
  fil_id :: int
  fil_type :: string
  fil_color :: string
  fil_tray_info_idx :: string

record plate_filament = filament +
  fil_used_m :: string
  fil_used_g :: string

record slice_plate =
  sp_index :: int
  sp_objects :: "plate_object list"
  sp_filaments :: "plate_filament list"
  sp_metadata :: "(string option \<times> string option) list"

definition plate_metadata :: "xml \<Rightarrow> slice_plate \<Rightarrow> py_error + slice_plate" where
  "plate_metadata meta plate =
     (let key = get meta ''key''; val = get meta ''value'';
          plate' = plate\<lparr>sp_metadata := dict_set (sp_metadata plate) key val\<rparr>
      in if key = Some ''index''
         then (case py_int_opt val of
                 Inl e \<Rightarrow> Inl e
               | Inr i \<Rightarrow> Inr (plate'\<lparr>sp_index := i\<rparr>))
         else Inr plate')"

definition plate_object_of :: "xml \<Rightarrow> plate_object" where
  "plate_object_of obj_el =
     \<lparr>po_identify_id = get_or obj_el ''identify_id'' [],
      po_name = get_or obj_el ''name'' [],
      po_skipped = (get_or obj_el ''skipped'' ''false'' = ''true'')\<rparr>"

text \<open>The entry that a \<^verbatim>\<open><filament>\<close> element puts into the global table.\<close>

definition global_filament :: "int \<Rightarrow> xml \<Rightarrow> filament" where
  "global_filament fid fil_el =
     \<lparr>fil_id = fid, fil_type = get_or fil_el ''type'' [],
      fil_color = get_or fil_el ''color'' ''#808080'',
      fil_tray_info_idx = get_or fil_el ''tray_info_idx'' []\<rparr>"

definition plate_filament_of :: "int \<Rightarrow> xml \<Rightarrow> plate_filament" where
  "plate_filament_of fid fil_el =
     \<lparr>fil_id = fid, fil_type = get_or fil_el ''type'' [],
      fil_color = get_or fil_el ''color'' ''#808080'',
      fil_tray_info_idx = get_or fil_el ''tray_info_idx'' [],
      fil_used_m = get_or fil_el ''used_m'' [],
      fil_used_g = get_or fil_el ''used_g'' []\<rparr>"

text \<open>
  One pass of the filament loop. The state is the global table and the plate being built;
  the table takes an entry only for an id it does not have yet.
\<close>

definition add_filament ::
  "xml \<Rightarrow> (int \<times> filament) list \<times> slice_plate \<Rightarrow> py_error + (int \<times> filament) list \<times> slice_plate"
where
  "add_filament fil_el st =
     (case st of (filaments, plate) \<Rightarrow>
        (case py_int_opt (get fil_el ''id'') of
           Inl e \<Rightarrow> Inl e
         | Inr fid \<Rightarrow>
             Inr (if fid \<in> fst ` set filaments then filaments
                  else filaments @ [(fid, global_filament fid fil_el)],
                  plate\<lparr>sp_filaments := sp_filaments plate @ [plate_filament_of fid fil_el]\<rparr>)))"

definition parse_plate ::
  "xml \<Rightarrow> (int \<times> filament) list \<times> slice_plate list \<Rightarrow>
   py_error + (int \<times> filament) list \<times> slice_plate list"
where
  "parse_plate plate_el st =
     (case st of (filaments, plates) \<Rightarrow>
        (case for_each plate_metadata (findall plate_el ''metadata'')
                \<lparr>sp_index = 0, sp_objects = [], sp_filaments = [], sp_metadata = []\<rparr> of
           Inl e \<Rightarrow> Inl e
         | Inr plate \<Rightarrow>
             (case for_each add_filament (findall plate_el ''filament'')
                     (filaments,
                      plate\<lparr>sp_objects := map plate_object_of (findall plate_el ''object'')\<rparr>) of
                Inl e \<Rightarrow> Inl e
              | Inr (filaments', plate') \<Rightarrow> Inr (filaments', plates @ [plate']))))"

text \<open>\<open>None\<close> is a package without the part; the result is then two empty containers.\<close>

definition parse_slice_info ::
  "xml option \<Rightarrow> py_error + (int \<times> filament) list \<times> slice_plate list"
where
  "parse_slice_info xml_bytes =
     (case xml_bytes of
        None \<Rightarrow> Inr ([], [])
      | Some tree \<Rightarrow> for_each parse_plate (findall tree ''plate'') ([], []))"

text \<open>All \<^verbatim>\<open><filament>\<close> elements of a \<^verbatim>\<open>slice_info\<close> document, in document order.\<close>

definition filament_elements :: "xml \<Rightarrow> xml list" where
  "filament_elements tree = concat (map (\<lambda>p. findall p ''filament'') (findall tree ''plate''))"

subsection \<open>Reading parts of the package\<close>

text \<open>
  The open ZIP container is a finite map from part names to their bytes. \<^verbatim>\<open>zf.read\<close>
  raises \<^verbatim>\<open>KeyError\<close> for a name that is not there, which \<^verbatim>\<open>_read_zip\<close> turns into
  \<^verbatim>\<open>None\<close>. \<^verbatim>\<open>bytes.decode\<close> is a parameter: it returns the text or raises
  \<^verbatim>\<open>UnicodeDecodeError\<close>.
\<close>

type_synonym bytes = "8 word list"

definition read_zip :: "(string \<rightharpoonup> bytes) \<Rightarrow> string \<Rightarrow> bytes option" where
  "read_zip zf path = zf path"

definition read_zip_str ::
  "(bytes \<Rightarrow> py_error + string) \<Rightarrow> (string \<rightharpoonup> bytes) \<Rightarrow> string \<Rightarrow> py_error + string option"
where
  "read_zip_str decode zf path =
     (case read_zip zf path of
        None \<Rightarrow> Inr None
      | Some raw \<Rightarrow>
          if raw = [] then Inr None
          else (case decode raw of Inl e \<Rightarrow> Inl e | Inr s \<Rightarrow> Inr (Some s)))"

section \<open>Serializer (\<^verbatim>\<open>core/serializer.py\<close>)\<close>

subsection \<open>\<^verbatim>\<open>str(int)\<close>, \<^verbatim>\<open>dict.get\<close>, \<^verbatim>\<open>str.replace\<close>\<close>

definition digit_char :: "nat \<Rightarrow> char" where
  "digit_char n = char_of (48 + n)"

fun str_nat :: "nat \<Rightarrow> string" where
  "str_nat n = (if n < 10 then [digit_char n] else str_nat (n div 10) @ [digit_char (n mod 10)])"

definition str_int :: "int \<Rightarrow> string" where
  "str_int i = (if i < 0 then CHR ''-'' # str_nat (nat (- i)) else str_nat (nat i))"

definition dict_get_or :: "('k \<times> 'v) list \<Rightarrow> 'k \<Rightarrow> 'v \<Rightarrow> 'v" where
  "dict_get_or d k dflt = (case map_of d k of None \<Rightarrow> dflt | Some v \<Rightarrow> v)"

text \<open>\<^verbatim>\<open>s.replace(c, r)\<close> for a pattern of one character.\<close>

definition replace :: "char \<Rightarrow> string \<Rightarrow> string \<Rightarrow> string" where
  "replace c r s = concat (map (\<lambda>x. if x = c then r else [x]) s)"

definition esc :: "string \<Rightarrow> string" where
  "esc text =
     (if text = [] then []
      else replace (CHR 0x22) ''&quot;''
             (replace (CHR ''>'') ''&gt;''
               (replace (CHR ''<'') ''&lt;''
                 (replace (CHR ''&'') ''&amp;'' text))))"

subsection \<open>Scene objects and export groups\<close>

text \<open>
  A Blender object, as far as the export reads it: its type, its name, the custom
  properties \<^verbatim>\<open>bambu_object_id\<close> and \<^verbatim>\<open>bambu_part_id\<close> (\<open>None\<close> when the object does not
  carry the property) and its children.
\<close>

datatype obj_type = EMPTY | MESH | OTHER

datatype bobject = BObject (o_type: obj_type) (o_name: string)
  (bambu_object_id: "int option") (bambu_part_id: "int option") (o_children: "bobject list")

record group =
  parent :: bobject
  children :: "bobject list"

text \<open>
  What the export reads of the Blender context: the two object lists, and the project
  settings text that an earlier import stored (empty when there is none).
\<close>

record export_context =
  selected_objects :: "bobject list"
  scene_objects :: "bobject list"
  project_settings :: string

definition collect_export_groups :: "export_context \<Rightarrow> bool \<Rightarrow> group list" where
  "collect_export_groups ctx selection_only =
     (let source = (if selection_only then selected_objects ctx else scene_objects ctx);
          empties = filter (\<lambda>o'. o_type o' = EMPTY \<and> bambu_object_id o' \<noteq> None) source
      in if empties \<noteq> []
         then concat (map (\<lambda>empty.
                let cs = filter (\<lambda>c. o_type c = MESH) (o_children empty)
                in if cs \<noteq> [] then [\<lparr>parent = empty, children = cs\<rparr>] else []) empties)
         else map (\<lambda>m. \<lparr>parent = m, children = [m]\<rparr>) (filter (\<lambda>o'. o_type o' = MESH) source))"

subsection \<open>Identifier assignment\<close>

text \<open>
  The group loop of \<^verbatim>\<open>export_3mf\<close>, reduced to the identifiers: a group keeps its stored
  \<^verbatim>\<open>bambu_object_id\<close>, a group without one takes the counter \<^verbatim>\<open>next_part_id\<close>, which then
  goes up by one.
\<close>

fun assembly_ids :: "int \<Rightarrow> group list \<Rightarrow> int list" where
  "assembly_ids next_part_id [] = []"
| "assembly_ids next_part_id (g # gs) =
     (case bambu_object_id (parent g) of
        None \<Rightarrow> next_part_id # assembly_ids (next_part_id + 1) gs
      | Some assembly_id \<Rightarrow> assembly_id # assembly_ids next_part_id gs)"

text \<open>\<^verbatim>\<open>while fallback_id in used_ids: fallback_id += 1\<close>\<close>

function skip_used :: "int list \<Rightarrow> int \<Rightarrow> int" where
  "skip_used used_ids fallback_id =
     (if fallback_id \<in> set used_ids then skip_used used_ids (fallback_id + 1) else fallback_id)"
  by pat_completeness auto
termination
proof (relation "measure (\<lambda>(used_ids, fallback_id). length (filter (\<lambda>x. fallback_id \<le> x) used_ids))")
  show "wf (measure (\<lambda>(used_ids, fallback_id). length (filter (\<lambda>x. fallback_id \<le> x) used_ids)))"
    by simp
next
  fix used_ids :: "int list" and fallback_id :: int
  assume m: "fallback_id \<in> set used_ids"
  have "filter (\<lambda>x. fallback_id + 1 \<le> x) used_ids =
      filter (\<lambda>x. fallback_id + 1 \<le> x) (filter (\<lambda>x. fallback_id \<le> x) used_ids)"
    unfolding filter_filter by (rule filter_cong) auto
  moreover have "length (filter (\<lambda>x. fallback_id + 1 \<le> x) (filter (\<lambda>x. fallback_id \<le> x) used_ids))
      < length (filter (\<lambda>x. fallback_id \<le> x) used_ids)"
    using m by (intro length_filter_less [of fallback_id]) simp_all
  ultimately show "((used_ids, fallback_id + 1), (used_ids, fallback_id))
      \<in> measure (\<lambda>(used_ids, fallback_id). length (filter (\<lambda>x. fallback_id \<le> x) used_ids))"
    by simp
qed

declare skip_used.simps [simp del]

text \<open>
  The second loop of \<^verbatim>\<open>_build_sub_model\<close>, reduced to the identifiers. \<open>used_ids\<close> is the
  Python set, kept as a list.
\<close>

fun part_ids :: "int \<Rightarrow> int list \<Rightarrow> bobject list \<Rightarrow> int list" where
  "part_ids fallback_id used_ids [] = []"
| "part_ids fallback_id used_ids (obj # objs) =
     (case bambu_part_id obj of
        None \<Rightarrow>
          (let part_id = skip_used used_ids fallback_id
           in part_id # part_ids (part_id + 1) (part_id # used_ids) objs)
      | Some part_id \<Rightarrow> part_id # part_ids fallback_id used_ids objs)"

text \<open>The first loop: the stored part ids, which seed \<^verbatim>\<open>used_ids\<close>.\<close>

definition stored_part_ids :: "bobject list \<Rightarrow> int list" where
  "stored_part_ids mesh_objects =
     concat (map (\<lambda>obj. case bambu_part_id obj of None \<Rightarrow> [] | Some pid \<Rightarrow> [pid])
       mesh_objects)"

text \<open>The identifiers of the components that \<^verbatim>\<open>_build_sub_model\<close> returns for one group.\<close>

definition build_sub_model_ids :: "bobject list \<Rightarrow> int list" where
  "build_sub_model_ids mesh_objects = part_ids 1 (stored_part_ids mesh_objects) mesh_objects"

text \<open>For each group of an export, its assembly id and the part ids of its sub-model.\<close>

definition export_ids :: "group list \<Rightarrow> (int \<times> int list) list" where
  "export_ids groups = zip (assembly_ids 1 groups) (map (\<lambda>g. build_sub_model_ids (children g)) groups)"

subsection \<open>Stale-reference cleanup\<close>

text \<open>
  A plate of \<^verbatim>\<open>model_settings\<close> as the export gets it back from the stored JSON. A field
  is \<open>None\<close> when the dictionary lacks the key; every other key of the dictionary is in
  the record's extension, which \<^verbatim>\<open>dict(plate)\<close> copies.
\<close>

record ms_plate =
  ms_metadata :: "(string \<times> string) list option"
  ms_instances :: "(string \<times> string) list list option"

definition kept_instances :: "string set \<Rightarrow> 'a ms_plate_scheme \<Rightarrow> (string \<times> string) list list" where
  "kept_instances valid_object_ids plate =
     filter (\<lambda>inst. dict_get_or inst ''object_id'' [] \<in> valid_object_ids)
       (case ms_instances plate of None \<Rightarrow> [] | Some insts \<Rightarrow> insts)"

fun renumber_plates :: "nat \<Rightarrow> 'a ms_plate_scheme list \<Rightarrow> 'a ms_plate_scheme list" where
  "renumber_plates i [] = []"
| "renumber_plates i (plate # cleaned) =
     plate\<lparr>ms_metadata :=
        Some (dict_set (case ms_metadata plate of None \<Rightarrow> [] | Some meta \<Rightarrow> meta)
                ''index'' (str_int (int i + 1)))\<rparr>
     # renumber_plates (i + 1) cleaned"

text \<open>The first loop: the list \<^verbatim>\<open>cleaned\<close> before it is renumbered.\<close>

definition cleaned_plates ::
  "string set \<Rightarrow> 'a ms_plate_scheme list \<Rightarrow> 'a ms_plate_scheme list" where
  "cleaned_plates valid_object_ids ms_plates =
     concat (map (\<lambda>plate.
        let kept = kept_instances valid_object_ids plate
        in if kept \<noteq> [] then [plate\<lparr>ms_instances := Some kept\<rparr>] else [])
      ms_plates)"

definition clean_stale_plates ::
  "'a ms_plate_scheme list \<Rightarrow> string set \<Rightarrow> 'a ms_plate_scheme list" where
  "clean_stale_plates ms_plates valid_object_ids =
     (if ms_plates = [] then ms_plates
      else renumber_plates 0 (cleaned_plates valid_object_ids ms_plates))"

text \<open>
  A plate of \<^verbatim>\<open>slice_info\<close> after the JSON round trip: a metadata value may be null, an
  object entry may lack its name.
\<close>

record stored_object =
  so_identify_id :: string
  so_name :: "string option"
  so_skipped :: bool

record stored_plate =
  st_metadata :: "(string \<times> string option) list option"
  st_objects :: "stored_object list option"

definition kept_objects :: "string set \<Rightarrow> 'a stored_plate_scheme \<Rightarrow> stored_object list" where
  "kept_objects valid_names plate =
     filter (\<lambda>obj. (case so_name obj of None \<Rightarrow> [] | Some n \<Rightarrow> n) \<in> valid_names)
       (case st_objects plate of None \<Rightarrow> [] | Some objs \<Rightarrow> objs)"

fun renumber_slice_plates :: "nat \<Rightarrow> 'a stored_plate_scheme list \<Rightarrow> 'a stored_plate_scheme list" where
  "renumber_slice_plates i [] = []"
| "renumber_slice_plates i (plate # cleaned) =
     plate\<lparr>st_metadata :=
        Some (dict_set (case st_metadata plate of None \<Rightarrow> [] | Some meta \<Rightarrow> meta)
                ''index'' (Some (str_int (int i + 1))))\<rparr>
     # renumber_slice_plates (i + 1) cleaned"

definition cleaned_slice_plates ::
  "string set \<Rightarrow> 'a stored_plate_scheme list \<Rightarrow> 'a stored_plate_scheme list" where
  "cleaned_slice_plates valid_names plates_json =
     concat (map (\<lambda>plate.
        let kept = kept_objects valid_names plate
        in if kept \<noteq> [] then [plate\<lparr>st_objects := Some kept\<rparr>] else [])
      plates_json)"

definition clean_stale_slice_plates ::
  "'a stored_plate_scheme list \<Rightarrow> string set \<Rightarrow> 'a stored_plate_scheme list" where
  "clean_stale_slice_plates plates_json valid_names =
     (if plates_json = [] then plates_json
      else renumber_slice_plates 0 (cleaned_slice_plates valid_names plates_json))"

text \<open>The \<^verbatim>\<open>index\<close> entry of a plate's metadata, when the plate has one.\<close>

definition ms_index :: "'a ms_plate_scheme \<Rightarrow> string option" where
  "ms_index plate = (case ms_metadata plate of None \<Rightarrow> None | Some meta \<Rightarrow> map_of meta ''index'')"

definition st_index :: "'a stored_plate_scheme \<Rightarrow> string option" where
  "st_index plate =
     (case st_metadata plate of
        None \<Rightarrow> None
      | Some meta \<Rightarrow> (case map_of meta ''index'' of None \<Rightarrow> None | Some v \<Rightarrow> v))"

subsection \<open>The main model, \<^verbatim>\<open>_build_main_model\<close>\<close>

record asm =
  asm_id :: int
  asm_uuid :: string
  asm_components :: "component list"

definition metadata_line :: "string \<Rightarrow> string \<Rightarrow> string" where
  "metadata_line key val = '' <metadata name=\"'' @ esc key @ ''\">'' @ esc val @ ''</metadata>''"

text \<open>
  The metadata block. \<open>version\<close> is what \<^verbatim>\<open>get_bambu_version_string()\<close> returns, and
  \<open>model_metadata\<close> is the stored dictionary in its order (empty when there is none).
\<close>

definition metadata_block :: "string \<Rightarrow> (string \<times> string) list \<Rightarrow> string list" where
  "metadata_block version model_metadata =
     (let app = (if model_metadata \<noteq> [] then dict_get_or model_metadata ''Application'' version
                 else version)
      in ['' <metadata name=\"Application\">'' @ esc app @ ''</metadata>'',
          '' <metadata name=\"BambuStudio:3mfVersion\">1</metadata>'']
         @ concat (map (\<lambda>(key, val).
               if key \<notin> set [''Application'', ''BambuStudio:3mfVersion''] \<and> val \<noteq> []
               then [metadata_line key val] else [])
             model_metadata))"

definition component_line :: "component \<Rightarrow> string" where
  "component_line c =
     ''    <component p:path=\"'' @ comp_path c @ ''\" objectid=\"'' @ str_int (comp_objectid c)
     @ ''\" p:UUID=\"'' @ comp_uuid c @ ''\" transform=\"'' @ comp_transform c @ ''\" />''"

definition object_lines :: "asm \<Rightarrow> string list" where
  "object_lines a =
     [''  <object id=\"'' @ str_int (asm_id a) @ ''\" p:UUID=\"'' @ asm_uuid a @ ''\" type=\"model\">'',
      ''   <components>'']
     @ map component_line (asm_components a)
     @ [''   </components>'', ''  </object>'']"

definition item_line :: "build_item \<Rightarrow> string" where
  "item_line bi =
     ''  <item objectid=\"'' @ str_int (bi_objectid bi) @ ''\" p:UUID=\"'' @ bi_uuid bi
     @ ''\" transform=\"'' @ bi_transform bi
     @ ''\" printable=\"'' @ (if bi_printable bi then ''1'' else ''0'') @ ''\" />''"

text \<open>The list \<^verbatim>\<open>lines\<close>; \<open>build_uuid\<close> is the fresh \<^verbatim>\<open>uuid.uuid4()\<close> of the build element.\<close>

definition main_model_lines ::
  "string \<Rightarrow> string \<Rightarrow> asm list \<Rightarrow> build_item list \<Rightarrow> (string \<times> string) list \<Rightarrow> string list"
where
  "main_model_lines version build_uuid assembly_objects build_items model_metadata =
     [''<?xml version=\"1.0\" encoding=\"UTF-8\"?>'',
      ''<model unit=\"millimeter\" xml:lang=\"en-US\"''
      @ '' xmlns=\"http://schemas.microsoft.com/3dmanufacturing/core/2015/02\"''
      @ '' xmlns:p=\"http://schemas.microsoft.com/3dmanufacturing/production/2015/06\"''
      @ '' xmlns:BambuStudio=\"http://schemas.bambulab.com/package/2021\"''
      @ '' requiredextensions=\"p\">'']
     @ metadata_block version model_metadata
     @ ['' <resources>'']
     @ concat (map object_lines assembly_objects)
     @ ['' </resources>'', '' <build p:UUID=\"'' @ build_uuid @ ''\">'']
     @ map item_line build_items
     @ ['' </build>'', ''</model>'']"

fun join_lines :: "string list \<Rightarrow> string" where
  "join_lines [] = []"
| "join_lines [l] = l"
| "join_lines (l # ls) = l @ CHR 0x0A # join_lines ls"

definition build_main_model ::
  "string \<Rightarrow> string \<Rightarrow> asm list \<Rightarrow> build_item list \<Rightarrow> (string \<times> string) list \<Rightarrow> string"
where
  "build_main_model version build_uuid assembly_objects build_items model_metadata =
     join_lines (main_model_lines version build_uuid assembly_objects build_items model_metadata)"

text \<open>\<^verbatim>\<open>text.split("\\n")\<close>: the lines of a text, to compare the joined text with the list.\<close>

fun split_lines_from :: "string \<Rightarrow> string \<Rightarrow> string list" where
  "split_lines_from cur [] = [cur]"
| "split_lines_from cur (c # cs) =
     (if c = CHR 0x0A then cur # split_lines_from [] cs else split_lines_from (cur @ [c]) cs)"

definition split_lines :: "string \<Rightarrow> string list" where
  "split_lines s = split_lines_from [] s"

text \<open>The lines of the output that are metadata elements of the model.\<close>

definition is_metadata_line :: "string \<Rightarrow> bool" where
  "is_metadata_line l = (take 11 l = '' <metadata '')"

text \<open>
  Follows the specification's words, for comparison with the code: the round-tripped
  entries that remain once the two keys written first are left out.
\<close>

definition spec_remaining_metadata :: "(string \<times> string) list \<Rightarrow> (string \<times> string) list" where
  "spec_remaining_metadata model_metadata =
     filter (\<lambda>(key, val). key \<noteq> ''Application'' \<and> key \<noteq> ''BambuStudio:3mfVersion'')
       model_metadata"

subsection \<open>\<^verbatim>\<open>export_3mf\<close>\<close>

text \<open>
  The file system maps a path to the names of the parts of the archive stored there;
  the bytes of the parts are not modelled. The result is the operator's return value
  and the file system after the call. Errors of the operating system on opening the
  target are not modelled.
\<close>

datatype export_result = CANCELLED | FINISHED

definition sub_path :: "int \<Rightarrow> string" where
  "sub_path assembly_id = ''/3D/Objects/object_'' @ str_int assembly_id @ ''.model''"

definition export_3mf ::
  "export_context \<Rightarrow> (string \<rightharpoonup> string list) \<Rightarrow> string \<Rightarrow> bool \<Rightarrow>
   export_result \<times> (string \<rightharpoonup> string list)"
where
  "export_3mf ctx fs filepath selection_only =
     (let groups = collect_export_groups ctx selection_only
      in if groups = [] then (CANCELLED, fs)
         else
           (let sub_model_refs = map sub_path (assembly_ids 1 groups);
                sub_model_xmls = foldl (\<lambda>d p. dict_set d p ()) [] sub_model_refs
            in (FINISHED,
                fs(filepath \<mapsto>
                  [''[Content_Types].xml'', ''_rels/.rels'', ''3D/3dmodel.model'',
                   ''3D/_rels/3dmodel.model.rels'']
                  @ map (\<lambda>(path, _). dropWhile (\<lambda>c. c = CHR ''/'') path) sub_model_xmls
                  @ [''Metadata/model_settings.config'', ''Metadata/slice_info.config'']
                  @ (if project_settings ctx \<noteq> [] then [''Metadata/project_settings.config'']
                     else [])))))"

section \<open>Transform codec: the encoder and the round trip\<close>

subsection \<open>\<^verbatim>\<open>matrix_to_3mf_transform\<close>\<close>


text \<open>The pieces of the f-string, which single spaces separate.\<close>

fun join_spaces :: "string list \<Rightarrow> string" where
  "join_spaces [] = []"
| "join_spaces [t] = t"
| "join_spaces (t # ts) = t @ CHR '' '' # join_spaces ts"

text \<open>
  \<open>format_9g\<close> is the format specification \<^verbatim>\<open>:.9g\<close> of Python, a parameter: it gives
  the text of a float with nine significant digits. The function reads the entries
  \<^verbatim>\<open>mat[0][0]\<close> to \<^verbatim>\<open>mat[2][3]\<close> and no other entry; on a matrix with fewer than three
  rows or fewer than four columns the indexing raises \<^verbatim>\<open>IndexError\<close>.
\<close>

definition matrix_to_3mf_transform ::
  "(pyfloat \<Rightarrow> string) \<Rightarrow> matrix \<Rightarrow> pyfloat \<Rightarrow> py_error + string" where
  "matrix_to_3mf_transform format_9g mat scale =
     (if length mat < 3 \<or> \<not> list_all (\<lambda>row. 4 \<le> length row) (take 3 mat) then Inl IndexError
      else Inr (join_spaces (map format_9g
        [mat ! 0 ! 0, mat ! 1 ! 0, mat ! 2 ! 0,
         mat ! 0 ! 1, mat ! 1 ! 1, mat ! 2 ! 1,
         mat ! 0 ! 2, mat ! 1 ! 2, mat ! 2 ! 2,
         FMul (mat ! 0 ! 3) scale, FMul (mat ! 1 ! 3) scale, FMul (mat ! 2 ! 3) scale])))"


subsection \<open>Numbers for the symbolic floats\<close>








subsection \<open>The plates that cleanup leaves alone\<close>

text \<open>A plate whose instances are all valid, and not none, is left as it is.\<close>

definition settled :: "string set \<Rightarrow> 'a ms_plate_scheme \<Rightarrow> bool" where
  "settled V p = (kept_instances V p \<noteq> [] \<and> ms_instances p = Some (kept_instances V p))"

definition slice_settled :: "string set \<Rightarrow> 'a stored_plate_scheme \<Rightarrow> bool" where
  "slice_settled V p = (kept_objects V p \<noteq> [] \<and> st_objects p = Some (kept_objects V p))"

subsection \<open>The invariant of the filament loop\<close>

text \<open>The table holds, for each id, the entry of the first element of doc with that id.\<close>

definition first_wins :: "(int \<times> filament) list \<Rightarrow> xml list \<Rightarrow> bool" where
  "first_wins tbl doc =
     (distinct (map fst tbl) \<and>
      (\<forall>fid. map_of tbl fid =
         map_option (global_filament fid)
           (List.find (\<lambda>e. py_int_opt (get e ''id'') = Inr fid) doc)))"

section \<open>Properties of the transform codec\<close>

lemma collect_py_float_ok:
  "list_all float_literal ts \<Longrightarrow> collect py_float ts = Inr (map FloatOf ts)"
  by (induction ts) (simp_all add: py_float_def)

lemma collect_py_float_fail:
  "\<not> list_all float_literal ts \<Longrightarrow> collect py_float ts = Inl ValueError"
  by (induction ts) (auto simp: py_float_def split: sum.splits)

lemma split_empty: "split [] = []"
  by (simp add: split_def)

lemma strip_empty: "strip [] = []"
  by (simp add: strip_def)

lemma twelve_elements:
  assumes "length xs = 12"
  obtains a b c d e f g h i j k l where "xs = [a, b, c, d, e, f, g, h, i, j, k, l]"
  using assms by (auto simp: numeral_eq_Suc length_Suc_conv)

text \<open>
  Claim C1, as the code has it. A missing transform, an empty or all-whitespace string,
  and a string of numeric tokens whose count is not 12 decode to the identity matrix
  without an error. A string with a token that \<^verbatim>\<open>float\<close> rejects does not: the list
  comprehension raises \<^verbatim>\<open>ValueError\<close> before the token count is looked at, and
  nothing in the function catches it.
\<close>

theorem C1_malformed_transform:
  "parse_3mf_transform None scale = Inr Identity4 \<and>
   (strip s = [] \<longrightarrow> parse_3mf_transform (Some s) scale = Inr Identity4) \<and>
   (list_all float_literal (split (strip s)) \<and> length (split (strip s)) \<noteq> 12 \<longrightarrow>
      parse_3mf_transform (Some s) scale = Inr Identity4) \<and>
   (\<not> list_all float_literal (split (strip s)) \<longrightarrow>
      parse_3mf_transform (Some s) scale = Inl ValueError)"
proof (intro conjI impI)
  show "parse_3mf_transform None scale = Inr Identity4"
    by (simp add: parse_3mf_transform_def)
next
  assume "strip s = []"
  then show "parse_3mf_transform (Some s) scale = Inr Identity4"
    by (simp add: parse_3mf_transform_def)
next
  assume h: "list_all float_literal (split (strip s)) \<and> length (split (strip s)) \<noteq> 12"
  then have "collect py_float (split (strip s)) = Inr (map FloatOf (split (strip s)))"
    by (simp add: collect_py_float_ok)
  with h show "parse_3mf_transform (Some s) scale = Inr Identity4"
    by (simp add: parse_3mf_transform_def)
next
  assume h: "\<not> list_all float_literal (split (strip s))"
  then have ne: "strip s \<noteq> []"
    by (auto simp: split_empty)
  then have "s \<noteq> []"
    by (auto simp: strip_empty)
  with ne h show "parse_3mf_transform (Some s) scale = Inl ValueError"
    by (simp add: parse_3mf_transform_def collect_py_float_fail)
qed

theorem C1_malformed_transform_witness:
  "parse_3mf_transform None MM_TO_M = Inr Identity4 \<and>
   parse_3mf_transform (Some '' '') MM_TO_M = Inr Identity4 \<and>
   parse_3mf_transform (Some ''1 0 0 0 1 0 0 0 1 0 0'') MM_TO_M = Inr Identity4 \<and>
   parse_3mf_transform (Some ''1 0 0 0 1 0 0 0 1 0 0 zero'') MM_TO_M = Inl ValueError"
proof -
  have a: "strip '' '' = []"
    by (simp add: strip_def is_space_def)
  have b: "list_all float_literal (split (strip ''1 0 0 0 1 0 0 0 1 0 0'')) \<and>
      length (split (strip ''1 0 0 0 1 0 0 0 1 0 0'')) \<noteq> 12"
    by code_simp
  have c: "\<not> list_all float_literal (split (strip ''1 0 0 0 1 0 0 0 1 0 0 zero''))"
    by code_simp
  from a b c show ?thesis
    using C1_malformed_transform [of MM_TO_M "'' ''"]
      C1_malformed_transform [of MM_TO_M "''1 0 0 0 1 0 0 0 1 0 0''"]
      C1_malformed_transform [of MM_TO_M "''1 0 0 0 1 0 0 0 1 0 0 zero''"]
    by blast
qed

text \<open>
  Claim C1 as the specification words it fails: eleven numeric tokens followed by the
  word \<^verbatim>\<open>zero\<close> is a malformed transform string, and decoding it raises.
\<close>

theorem C1_non_numeric_token_raises:
  "parse_3mf_transform (Some ''1 0 0 0 1 0 0 0 1 0 0 zero'') MM_TO_M = Inl ValueError \<and>
   parse_3mf_transform (Some ''1 0 0 0 1 0 0 0 1 0 0 zero'') MM_TO_M \<noteq> Inr Identity4"
  by code_simp

text \<open>
  Whatever the input, a matrix that the decoder returns has the bottom row (0, 0, 0, 1):
  the twelve numbers of a transform string say nothing about a fourth row.
\<close>

lemma parse_3mf_transform_bottom_row:
  "parse_3mf_transform transform_str scale = Inr M \<Longrightarrow>
   M ! 3 = [FloatOf ''0.0'', FloatOf ''0.0'', FloatOf ''0.0'', FloatOf ''1.0'']"
  by (auto simp: parse_3mf_transform_def Identity4_def split: option.splits if_splits sum.splits)

text \<open>
  Claim C7. For a string of exactly 12 numeric tokens the decoder returns a matrix of
  four rows whose upper-left 3x3 block is the transpose of the three input rows (the
  rows of the input are the columns of the result) and does not mention the scale, whose
  fourth column is the translation triple (tokens 10 to 12), each multiplied by the
  scale, and whose bottom row is (0, 0, 0, 1).
\<close>

theorem C7_decode_layout:
  assumes "length (split (strip s)) = 12" and "list_all float_literal (split (strip s))"
  shows "\<exists>M. parse_3mf_transform (Some s) scale = Inr M \<and> length M = 4 \<and>
    (let vals = map FloatOf (split (strip s)) in
       map (take 3) (take 3 M) = transpose [take 3 vals, take 3 (drop 3 vals), take 3 (drop 6 vals)] \<and>
       map (\<lambda>row. row ! 3) (take 3 M) = map (\<lambda>t. FMul t scale) (drop 9 vals) \<and>
       M ! 3 = [FloatOf ''0.0'', FloatOf ''0.0'', FloatOf ''0.0'', FloatOf ''1.0''])"
proof -
  obtain a b c d e f g h i j k l where ts: "split (strip s) = [a, b, c, d, e, f, g, h, i, j, k, l]"
    using assms(1) by (rule twelve_elements)
  have ne: "strip s \<noteq> []" "s \<noteq> []"
    using assms(1) by (auto simp: split_empty strip_empty)
  have vals: "collect py_float (split (strip s)) = Inr (map FloatOf (split (strip s)))"
    using assms(2) by (rule collect_py_float_ok)
  have "parse_3mf_transform (Some s) scale = Inr
      [[FloatOf a, FloatOf d, FloatOf g, FMul (FloatOf j) scale],
       [FloatOf b, FloatOf e, FloatOf h, FMul (FloatOf k) scale],
       [FloatOf c, FloatOf f, FloatOf i, FMul (FloatOf l) scale],
       [FloatOf ''0.0'', FloatOf ''0.0'', FloatOf ''0.0'', FloatOf ''1.0'']]"
    using ne vals by (simp add: parse_3mf_transform_def ts)
  then show ?thesis
    by (simp add: ts transpose.simps)
qed

theorem C7_decode_layout_witness:
  "parse_3mf_transform (Some ''0 1 0 -1 0 0 0 0 1 10 20.5 30'') MM_TO_M = Inr
     [[FloatOf ''0'', FloatOf ''-1'', FloatOf ''0'', FMul (FloatOf ''10'') MM_TO_M],
      [FloatOf ''1'', FloatOf ''0'', FloatOf ''0'', FMul (FloatOf ''20.5'') MM_TO_M],
      [FloatOf ''0'', FloatOf ''0'', FloatOf ''1'', FMul (FloatOf ''30'') MM_TO_M],
      [FloatOf ''0.0'', FloatOf ''0.0'', FloatOf ''0.0'', FloatOf ''1.0'']]"
proof -
  have a: "length (split (strip ''0 1 0 -1 0 0 0 0 1 10 20.5 30'')) = 12"
    by code_simp
  have b: "list_all float_literal (split (strip ''0 1 0 -1 0 0 0 0 1 10 20.5 30''))"
    by code_simp
  obtain M where M: "parse_3mf_transform (Some ''0 1 0 -1 0 0 0 0 1 10 20.5 30'') MM_TO_M = Inr M"
    using C7_decode_layout [OF a b, of MM_TO_M] by blast
  have "parse_3mf_transform (Some ''0 1 0 -1 0 0 0 0 1 10 20.5 30'') MM_TO_M = Inr
     [[FloatOf ''0'', FloatOf ''-1'', FloatOf ''0'', FMul (FloatOf ''10'') MM_TO_M],
      [FloatOf ''1'', FloatOf ''0'', FloatOf ''0'', FMul (FloatOf ''20.5'') MM_TO_M],
      [FloatOf ''0'', FloatOf ''0'', FloatOf ''1'', FMul (FloatOf ''30'') MM_TO_M],
      [FloatOf ''0.0'', FloatOf ''0.0'', FloatOf ''0.0'', FloatOf ''1.0'']]"
    by code_simp
  with M show ?thesis
    by simp
qed

section \<open>Properties of the round trip through the codec\<close>

subsection \<open>Tokens survive joining and splitting\<close>







subsection \<open>The round trip, entry by entry\<close>




subsection \<open>Relative errors add up\<close>






text \<open>
  The encoder never reads the fourth row, and whatever the formatter prints, a matrix
  that comes back from the decoder has the fourth row (0, 0, 0, 1).
\<close>

lemma encode_ignores_fourth_row:
  "matrix_to_3mf_transform format_9g [r0, r1, r2, r3] s =
   matrix_to_3mf_transform format_9g [r0, r1, r2, r3'] s"
  by (simp add: matrix_to_3mf_transform_def)

lemma round_trip_fourth_row:
  "matrix_to_3mf_transform format_9g M s = Inr str \<Longrightarrow>
   parse_3mf_transform (Some str) s' = Inr R \<Longrightarrow>
   R ! 3 = [FloatOf ''0.0'', FloatOf ''0.0'', FloatOf ''0.0'', FloatOf ''1.0'']"
  by (rule parse_3mf_transform_bottom_row)


subsection \<open>Whole numbers, written and read back\<close>










section \<open>Properties of the parser\<close>

lemma collect_list_all2:
  "collect f xs = Inr ys \<Longrightarrow> list_all2 (\<lambda>x y. f x = Inr y) xs ys"
  by (induction xs arbitrary: ys) (auto split: sum.splits)

lemma parse_item_printable:
  "parse_item item = Inr bi \<Longrightarrow>
   bi_printable bi = (get item ''printable'' = None \<or> get item ''printable'' = Some ''1'')"
  by (auto simp: parse_item_def get_or_def split: sum.splits option.splits)

text \<open>
  Claim C10. When the assembly root parses, the \<^verbatim>\<open>printable\<close> field of each build item,
  in file order, is true exactly when the item's \<^verbatim>\<open>printable\<close> attribute is absent or
  is the string \<^verbatim>\<open>1\<close>; every other value, \<^verbatim>\<open>true\<close> included, gives false.
\<close>

theorem C10_printable_flag:
  assumes "parse_assembly tree = Inr (metadata, objects, build_items)"
  shows "map bi_printable build_items =
    map (\<lambda>item. get item ''printable'' = None \<or> get item ''printable'' = Some ''1'')
      (item_elements tree)"
proof -
  from assms have "collect parse_item (item_elements tree) = Inr build_items"
    by (auto simp: parse_assembly_def Let_def split: sum.splits)
  then have "list_all2 (\<lambda>x y. parse_item x = Inr y) (item_elements tree) build_items"
    by (rule collect_list_all2)
  then show ?thesis
    by (induction rule: list_all2_induct) (simp_all add: parse_item_printable)
qed

theorem C10_printable_flag_witness:
  "parse_assembly
     (Element (qn NS_CORE ''model'') [] None
       [Element (qn NS_CORE ''build'') [] None
         [Element (qn NS_CORE ''item'') [(''objectid'', ''1''), (''printable'', ''true'')] None [],
          Element (qn NS_CORE ''item'') [(''objectid'', ''2''), (''printable'', ''1'')] None [],
          Element (qn NS_CORE ''item'') [(''objectid'', ''3''), (''printable'', ''0'')] None [],
          Element (qn NS_CORE ''item'') [(''objectid'', ''4'')] None []]]) =
   Inr ([], [],
     [\<lparr>bi_objectid = 1, bi_uuid = [], bi_transform = [], bi_printable = False\<rparr>,
      \<lparr>bi_objectid = 2, bi_uuid = [], bi_transform = [], bi_printable = True\<rparr>,
      \<lparr>bi_objectid = 3, bi_uuid = [], bi_transform = [], bi_printable = False\<rparr>,
      \<lparr>bi_objectid = 4, bi_uuid = [], bi_transform = [], bi_printable = True\<rparr>])"
proof -
  let ?root = "Element (qn NS_CORE ''model'') [] None
       [Element (qn NS_CORE ''build'') [] None
         [Element (qn NS_CORE ''item'') [(''objectid'', ''1''), (''printable'', ''true'')] None [],
          Element (qn NS_CORE ''item'') [(''objectid'', ''2''), (''printable'', ''1'')] None [],
          Element (qn NS_CORE ''item'') [(''objectid'', ''3''), (''printable'', ''0'')] None [],
          Element (qn NS_CORE ''item'') [(''objectid'', ''4'')] None []]]"
  have p: "parse_assembly ?root = Inr ([], [],
     [\<lparr>bi_objectid = 1, bi_uuid = [], bi_transform = [], bi_printable = False\<rparr>,
      \<lparr>bi_objectid = 2, bi_uuid = [], bi_transform = [], bi_printable = True\<rparr>,
      \<lparr>bi_objectid = 3, bi_uuid = [], bi_transform = [], bi_printable = False\<rparr>,
      \<lparr>bi_objectid = 4, bi_uuid = [], bi_transform = [], bi_printable = True\<rparr>])"
    by code_simp
  have "map (\<lambda>item. get item ''printable'' = None \<or> get item ''printable'' = Some ''1'')
      (item_elements ?root) = [False, True, False, True]"
    by code_simp
  with C10_printable_flag [OF p] p show ?thesis
    by simp
qed

text \<open>
  Claim C9. For every container and part path, a part that is present with zero bytes
  reads as \<open>None\<close>, not as the empty string, which is also what a missing part reads
  as: \<^verbatim>\<open>raw.decode(...) if raw else None\<close> takes empty bytes for false.
\<close>

theorem C9_empty_part_reads_as_absent:
  "read_zip_str decode (zf(path \<mapsto> [])) path = Inr None \<and>
   read_zip_str decode (zf(path := None)) path = Inr None"
  by (simp add: read_zip_str_def read_zip_def)

lemma find_snoc:
  "List.find P (xs @ [x]) =
     (case List.find P xs of Some y \<Rightarrow> Some y | None \<Rightarrow> if P x then Some x else None)"
  by (induction xs) auto

lemma find_append:
  "List.find P (xs @ ys) = (case List.find P xs of Some y \<Rightarrow> Some y | None \<Rightarrow> List.find P ys)"
  by (induction xs) auto

lemma map_of_absent: "k \<notin> fst ` set tbl \<Longrightarrow> map_of tbl k = None"
  by (simp add: map_of_eq_None_iff)

lemma add_filament_first_wins:
  assumes "add_filament e (tbl, pl) = Inr (tbl', pl')" and "first_wins tbl doc"
  shows "first_wins tbl' (doc @ [e])"
proof -
  obtain fid where fid: "py_int_opt (get e ''id'') = Inr fid"
    using assms(1) by (auto simp: add_filament_def split: sum.splits)
  have tbl': "tbl' = (if fid \<in> fst ` set tbl then tbl else tbl @ [(fid, global_filament fid e)])"
    using assms(1) fid by (simp add: add_filament_def)
  have d: "distinct (map fst tbl)"
    and m: "\<And>k. map_of tbl k =
       map_option (global_filament k) (List.find (\<lambda>e. py_int_opt (get e ''id'') = Inr k) doc)"
    using assms(2) by (simp_all add: first_wins_def)
  show ?thesis
  proof (cases "fid \<in> fst ` set tbl")
    case True
    then obtain v where "map_of tbl fid = Some v"
      by (metis weak_map_of_SomeI imageE prod.collapse)
    then have "List.find (\<lambda>e. py_int_opt (get e ''id'') = Inr fid) doc \<noteq> None"
      using m [of fid] by auto
    then have "\<And>k. List.find (\<lambda>e. py_int_opt (get e ''id'') = Inr k) (doc @ [e]) =
        List.find (\<lambda>e. py_int_opt (get e ''id'') = Inr k) doc"
      using fid by (auto simp: find_snoc split: option.splits)
    with True d m show ?thesis
      by (simp add: first_wins_def tbl')
  next
    case False
    then have none: "map_of tbl fid = None"
      by (rule map_of_absent)
    then have nf: "List.find (\<lambda>e. py_int_opt (get e ''id'') = Inr fid) doc = None"
      using m [of fid] by simp
    have "map_of tbl' k =
        map_option (global_filament k) (List.find (\<lambda>e. py_int_opt (get e ''id'') = Inr k) (doc @ [e]))" for k
    proof (cases "k = fid")
      case True
      with False none nf fid show ?thesis
        by (simp add: tbl' find_snoc map_add_def)
    next
      case False
      with \<open>fid \<notin> fst ` set tbl\<close> fid m [of k] show ?thesis
        by (auto simp: tbl' find_snoc map_add_def split: option.splits)
    qed
    with False d show ?thesis
      by (simp add: first_wins_def tbl')
  qed
qed

lemma filament_loop_first_wins:
  "for_each add_filament els (tbl, pl) = Inr (tbl', pl') \<Longrightarrow> first_wins tbl doc \<Longrightarrow>
   first_wins tbl' (doc @ els)"
proof (induction els arbitrary: tbl pl doc)
  case Nil
  then show ?case by simp
next
  case (Cons e els)
  from Cons.prems(1) obtain t1 p1 where
    s1: "add_filament e (tbl, pl) = Inr (t1, p1)" and
    s2: "for_each add_filament els (t1, p1) = Inr (tbl', pl')"
    by (auto split: sum.splits)
  from s1 Cons.prems(2) have "first_wins t1 (doc @ [e])"
    by (rule add_filament_first_wins)
  with s2 have "first_wins tbl' ((doc @ [e]) @ els)"
    by (rule Cons.IH)
  then show ?case by simp
qed

lemma parse_plate_first_wins:
  assumes "parse_plate p (tbl, pls) = Inr (tbl', pls')" and "first_wins tbl doc"
  shows "first_wins tbl' (doc @ findall p ''filament'')"
proof -
  from assms(1) obtain pl0 pl' where
    "for_each add_filament (findall p ''filament'') (tbl, pl0) = Inr (tbl', pl')"
    by (auto simp: parse_plate_def split: sum.splits prod.splits)
  then show ?thesis
    using assms(2) by (rule filament_loop_first_wins)
qed

lemma plate_loop_first_wins:
  "for_each parse_plate ps (tbl, pls) = Inr (tbl', pls') \<Longrightarrow> first_wins tbl doc \<Longrightarrow>
   first_wins tbl' (doc @ concat (map (\<lambda>p. findall p ''filament'') ps))"
proof (induction ps arbitrary: tbl pls doc)
  case Nil
  then show ?case by simp
next
  case (Cons p ps)
  from Cons.prems(1) obtain t1 p1 where
    s1: "parse_plate p (tbl, pls) = Inr (t1, p1)" and
    s2: "for_each parse_plate ps (t1, p1) = Inr (tbl', pls')"
    by (auto split: sum.splits)
  from s1 Cons.prems(2) have "first_wins t1 (doc @ findall p ''filament'')"
    by (rule parse_plate_first_wins)
  with s2 have "first_wins tbl' ((doc @ findall p ''filament'') @ concat (map (\<lambda>p. findall p ''filament'') ps))"
    by (rule Cons.IH)
  then show ?case by simp
qed

lemma one_entry:
  "distinct (map fst tbl) \<Longrightarrow> map_of tbl k = Some v \<Longrightarrow>
   filter (\<lambda>kv. fst kv = k) tbl = [(k, v)]"
proof (induction tbl)
  case Nil
  then show ?case by simp
next
  case (Cons a tbl)
  show ?case
  proof (cases "fst a = k")
    case True
    with Cons.prems have "k \<notin> fst ` set tbl" "a = (k, v)"
      by (auto simp: prod_eq_iff)
    then have "filter (\<lambda>kv. fst kv = k) tbl = []"
      by (auto simp: filter_empty_conv)
    with True \<open>a = (k, v)\<close> show ?thesis by simp
  next
    case False
    with Cons show ?thesis by (auto split: if_splits)
  qed
qed

text \<open>
  Claim C6. When \<^verbatim>\<open>slice_info\<close> parses and \<open>e0\<close> is the first \<^verbatim>\<open><filament>\<close> element in
  document order whose id is \<open>fid\<close>, the global table has exactly one entry for \<open>fid\<close>,
  and it carries the type, colour and tray index of \<open>e0\<close>, whatever later plates declare
  for the same id.
\<close>

theorem C6_first_filament_wins:
  assumes "parse_slice_info (Some tree) = Inr (filaments, plates)"
    and "List.find (\<lambda>e. py_int_opt (get e ''id'') = Inr fid) (filament_elements tree) = Some e0"
  shows "filter (\<lambda>kv. fst kv = fid) filaments =
     [(fid, \<lparr>fil_id = fid, fil_type = get_or e0 ''type'' [],
             fil_color = get_or e0 ''color'' ''#808080'',
             fil_tray_info_idx = get_or e0 ''tray_info_idx'' []\<rparr>)]"
proof -
  have "first_wins [] []"
    by (simp add: first_wins_def)
  with assms(1) have fw: "first_wins filaments (filament_elements tree)"
    using plate_loop_first_wins [of "findall tree ''plate''" "[]" "[]" filaments plates "[]"]
    by (simp add: parse_slice_info_def filament_elements_def)
  then have "map_of filaments fid = Some (global_filament fid e0)"
    using assms(2) by (simp add: first_wins_def)
  with fw have "filter (\<lambda>kv. fst kv = fid) filaments = [(fid, global_filament fid e0)]"
    by (simp add: first_wins_def one_entry)
  then show ?thesis
    by (simp add: global_filament_def)
qed

theorem C6_first_filament_wins_witness:
  "map_sum id fst (parse_slice_info (Some
     (Element ''config'' [] None
       [Element ''plate'' [] None
          [Element ''metadata'' [(''key'', ''index''), (''value'', ''1'')] None [],
           Element ''filament'' [(''id'', ''3''), (''type'', ''PLA''), (''color'', ''#FF0000'')] None []],
        Element ''plate'' [] None
          [Element ''metadata'' [(''key'', ''index''), (''value'', ''2'')] None [],
           Element ''filament'' [(''id'', ''3''), (''type'', ''PETG''), (''color'', ''#00FF00'')] None [],
           Element ''filament'' [(''id'', ''4''), (''type'', ''PLA''), (''color'', ''#C12E1F'')] None []]]))) =
   Inr [(3, \<lparr>fil_id = 3, fil_type = ''PLA'', fil_color = ''#FF0000'', fil_tray_info_idx = []\<rparr>),
        (4, \<lparr>fil_id = 4, fil_type = ''PLA'', fil_color = ''#C12E1F'', fil_tray_info_idx = []\<rparr>)]"
proof -
  let ?first = "Element ''filament'' [(''id'', ''3''), (''type'', ''PLA''), (''color'', ''#FF0000'')] None []"
  let ?root = "Element ''config'' [] None
       [Element ''plate'' [] None
          [Element ''metadata'' [(''key'', ''index''), (''value'', ''1'')] None [], ?first],
        Element ''plate'' [] None
          [Element ''metadata'' [(''key'', ''index''), (''value'', ''2'')] None [],
           Element ''filament'' [(''id'', ''3''), (''type'', ''PETG''), (''color'', ''#00FF00'')] None [],
           Element ''filament'' [(''id'', ''4''), (''type'', ''PLA''), (''color'', ''#C12E1F'')] None []]]"
  let ?table = "[(3::int, \<lparr>fil_id = 3, fil_type = ''PLA'', fil_color = ''#FF0000'', fil_tray_info_idx = []\<rparr>),
        (4, \<lparr>fil_id = 4, fil_type = ''PLA'', fil_color = ''#C12E1F'', fil_tray_info_idx = []\<rparr>)]"
  have v: "map_sum id fst (parse_slice_info (Some ?root)) = Inr ?table"
    by code_simp
  then obtain plates where p: "parse_slice_info (Some ?root) = Inr (?table, plates)"
    by (cases "parse_slice_info (Some ?root)") auto
  have f: "List.find (\<lambda>e. py_int_opt (get e ''id'') = Inr 3) (filament_elements ?root) = Some ?first"
    by code_simp
  have "filter (\<lambda>kv. fst kv = 3) ?table =
      [(3, \<lparr>fil_id = 3, fil_type = get_or ?first ''type'' [],
             fil_color = get_or ?first ''color'' ''#808080'',
             fil_tray_info_idx = get_or ?first ''tray_info_idx'' []\<rparr>)]"
    using p f by (rule C6_first_filament_wins)
  with v show ?thesis
    by simp
qed

section \<open>Properties of the serializer\<close>

lemma dict_set_twice: "dict_set (dict_set d k v) k v = dict_set d k v"
  by (induction d) auto

lemma map_of_dict_set: "map_of (dict_set d k v) k = Some v"
  by (induction d) auto

lemma upt_shift: "map (\<lambda>n. f (int n)) [Suc i..<Suc j] = map (\<lambda>n. f (int n + 1)) [i..<j]"
proof -
  have "map (\<lambda>n. f (int n)) (map Suc [i..<j]) = map (\<lambda>n. f (int n + 1)) [i..<j]"
    by (simp add: add.commute)
  then show ?thesis
    by (simp only: map_Suc_upt)
qed

subsection \<open>Cleanup of the plates of \<^verbatim>\<open>model_settings\<close>\<close>

lemma renumber_plates_instances:
  "map ms_instances (renumber_plates i ps) = map ms_instances ps"
  by (induction ps arbitrary: i) simp_all

lemma renumber_plates_length: "length (renumber_plates i ps) = length ps"
  by (induction ps arbitrary: i) simp_all

lemma renumber_plates_twice: "renumber_plates i (renumber_plates i ps) = renumber_plates i ps"
  by (induction ps arbitrary: i) (simp_all add: dict_set_twice)

lemma renumber_plates_index:
  "map ms_index (renumber_plates i ps) =
   map (\<lambda>n. Some (str_int (int n + 1))) [i..<i + length ps]"
proof (induction ps arbitrary: i)
  case Nil
  then show ?case by simp
next
  case (Cons p ps)
  have "[i..<i + length (p # ps)] = i # [Suc i..<Suc i + length ps]"
    by (simp add: upt_rec)
  with Cons.IH [of "Suc i"] show ?case
    by (simp add: ms_index_def map_of_dict_set)
qed

lemma cleaned_plates_instances:
  "map ms_instances (cleaned_plates V ps) =
   map Some (filter (\<lambda>kept. kept \<noteq> []) (map (kept_instances V) ps))"
  by (induction ps) (simp_all add: cleaned_plates_def Let_def)

lemma kept_instances_twice:
  "kept_instances V (p\<lparr>ms_instances := Some (kept_instances V p)\<rparr>) = kept_instances V p"
  by (simp add: kept_instances_def)

lemma cleaned_plates_settled: "list_all (settled V) (cleaned_plates V ps)"
  by (induction ps) (simp_all add: cleaned_plates_def Let_def settled_def kept_instances_twice)

lemma renumber_plates_settled:
  "list_all (settled V) ps \<Longrightarrow> list_all (settled V) (renumber_plates i ps)"
  by (induction ps arbitrary: i) (simp_all add: settled_def kept_instances_def)

lemma cleaned_plates_fixed: "list_all (settled V) ps \<Longrightarrow> cleaned_plates V ps = ps"
  by (induction ps) (simp_all add: cleaned_plates_def Let_def settled_def)

lemma clean_stale_plates_twice:
  "clean_stale_plates (clean_stale_plates ps V) V = clean_stale_plates ps V"
proof (cases "ps = []")
  case True
  then show ?thesis by (simp add: clean_stale_plates_def)
next
  case False
  let ?c = "renumber_plates 0 (cleaned_plates V ps)"
  have "list_all (settled V) ?c"
    by (intro renumber_plates_settled cleaned_plates_settled)
  then have "cleaned_plates V ?c = ?c"
    by (rule cleaned_plates_fixed)
  then have "clean_stale_plates ?c V = ?c"
    by (simp add: clean_stale_plates_def renumber_plates_twice)
  with False show ?thesis
    by (simp add: clean_stale_plates_def)
qed

lemma clean_stale_plates_index:
  "map ms_index (clean_stale_plates ps V) =
   map (\<lambda>n. Some (str_int (int n))) [1..<Suc (length (clean_stale_plates ps V))]"
proof (cases "ps = []")
  case True
  then show ?thesis by (simp add: clean_stale_plates_def)
next
  case False
  then show ?thesis
    using renumber_plates_index [of 0 "cleaned_plates V ps"]
      upt_shift [of "\<lambda>x. Some (str_int x)" 0 "length (cleaned_plates V ps)"]
    by (simp add: clean_stale_plates_def renumber_plates_length del: upt_Suc)
qed

lemma clean_stale_plates_order:
  "map ms_instances (clean_stale_plates ps V) =
   map Some (filter (\<lambda>kept. kept \<noteq> []) (map (kept_instances V) ps))"
  by (cases "ps = []")
     (simp_all add: clean_stale_plates_def renumber_plates_instances cleaned_plates_instances)

subsection \<open>Cleanup of the plates of \<^verbatim>\<open>slice_info\<close>\<close>

lemma renumber_slice_plates_objects:
  "map st_objects (renumber_slice_plates i ps) = map st_objects ps"
  by (induction ps arbitrary: i) simp_all

lemma renumber_slice_plates_length: "length (renumber_slice_plates i ps) = length ps"
  by (induction ps arbitrary: i) simp_all

lemma renumber_slice_plates_twice:
  "renumber_slice_plates i (renumber_slice_plates i ps) = renumber_slice_plates i ps"
  by (induction ps arbitrary: i) (simp_all add: dict_set_twice)

lemma renumber_slice_plates_index:
  "map st_index (renumber_slice_plates i ps) =
   map (\<lambda>n. Some (str_int (int n + 1))) [i..<i + length ps]"
proof (induction ps arbitrary: i)
  case Nil
  then show ?case by simp
next
  case (Cons p ps)
  have "[i..<i + length (p # ps)] = i # [Suc i..<Suc i + length ps]"
    by (simp add: upt_rec)
  with Cons.IH [of "Suc i"] show ?case
    by (simp add: st_index_def map_of_dict_set)
qed

lemma cleaned_slice_plates_objects:
  "map st_objects (cleaned_slice_plates V ps) =
   map Some (filter (\<lambda>kept. kept \<noteq> []) (map (kept_objects V) ps))"
  by (induction ps) (simp_all add: cleaned_slice_plates_def Let_def)

lemma kept_objects_twice:
  "kept_objects V (p\<lparr>st_objects := Some (kept_objects V p)\<rparr>) = kept_objects V p"
  by (simp add: kept_objects_def)

lemma cleaned_slice_plates_settled: "list_all (slice_settled V) (cleaned_slice_plates V ps)"
  by (induction ps)
     (simp_all add: cleaned_slice_plates_def Let_def slice_settled_def kept_objects_twice)

lemma renumber_slice_plates_settled:
  "list_all (slice_settled V) ps \<Longrightarrow> list_all (slice_settled V) (renumber_slice_plates i ps)"
  by (induction ps arbitrary: i) (simp_all add: slice_settled_def kept_objects_def)

lemma cleaned_slice_plates_fixed:
  "list_all (slice_settled V) ps \<Longrightarrow> cleaned_slice_plates V ps = ps"
  by (induction ps) (simp_all add: cleaned_slice_plates_def Let_def slice_settled_def)

lemma clean_stale_slice_plates_twice:
  "clean_stale_slice_plates (clean_stale_slice_plates ps V) V = clean_stale_slice_plates ps V"
proof (cases "ps = []")
  case True
  then show ?thesis by (simp add: clean_stale_slice_plates_def)
next
  case False
  let ?c = "renumber_slice_plates 0 (cleaned_slice_plates V ps)"
  have "list_all (slice_settled V) ?c"
    by (intro renumber_slice_plates_settled cleaned_slice_plates_settled)
  then have "cleaned_slice_plates V ?c = ?c"
    by (rule cleaned_slice_plates_fixed)
  then have "clean_stale_slice_plates ?c V = ?c"
    by (simp add: clean_stale_slice_plates_def renumber_slice_plates_twice)
  with False show ?thesis
    by (simp add: clean_stale_slice_plates_def)
qed

lemma clean_stale_slice_plates_index:
  "map st_index (clean_stale_slice_plates ps V) =
   map (\<lambda>n. Some (str_int (int n))) [1..<Suc (length (clean_stale_slice_plates ps V))]"
proof (cases "ps = []")
  case True
  then show ?thesis by (simp add: clean_stale_slice_plates_def)
next
  case False
  then show ?thesis
    using renumber_slice_plates_index [of 0 "cleaned_slice_plates V ps"]
      upt_shift [of "\<lambda>x. Some (str_int x)" 0 "length (cleaned_slice_plates V ps)"]
    by (simp add: clean_stale_slice_plates_def renumber_slice_plates_length del: upt_Suc)
qed

lemma clean_stale_slice_plates_order:
  "map st_objects (clean_stale_slice_plates ps V) =
   map Some (filter (\<lambda>kept. kept \<noteq> []) (map (kept_objects V) ps))"
  by (cases "ps = []")
     (simp_all add: clean_stale_slice_plates_def renumber_slice_plates_objects
        cleaned_slice_plates_objects)

text \<open>
  Claim C3. For every plate list and every set of valid object ids, cleaning a cleaned
  list again changes nothing; the \<^verbatim>\<open>index\<close> metadata of the surviving plates are the
  strings of 1, 2, ..., N in this order; and the surviving plates are, in their original
  order, the plates that keep at least one valid instance, each with the instances it
  keeps. The same holds for the plates of \<^verbatim>\<open>slice_info\<close>, with object names for ids.
\<close>

theorem C3_cleanup_idempotent_contiguous:
  "clean_stale_plates (clean_stale_plates ms_plates ids) ids = clean_stale_plates ms_plates ids \<and>
   map ms_index (clean_stale_plates ms_plates ids) =
     map (\<lambda>n. Some (str_int (int n))) [1..<Suc (length (clean_stale_plates ms_plates ids))] \<and>
   map ms_instances (clean_stale_plates ms_plates ids) =
     map Some (filter (\<lambda>kept. kept \<noteq> []) (map (kept_instances ids) ms_plates)) \<and>
   clean_stale_slice_plates (clean_stale_slice_plates plates_json names) names =
     clean_stale_slice_plates plates_json names \<and>
   map st_index (clean_stale_slice_plates plates_json names) =
     map (\<lambda>n. Some (str_int (int n)))
       [1..<Suc (length (clean_stale_slice_plates plates_json names))] \<and>
   map st_objects (clean_stale_slice_plates plates_json names) =
     map Some (filter (\<lambda>kept. kept \<noteq> []) (map (kept_objects names) plates_json))"
  by (intro conjI clean_stale_plates_twice clean_stale_plates_index clean_stale_plates_order
      clean_stale_slice_plates_twice clean_stale_slice_plates_index clean_stale_slice_plates_order)

subsection \<open>A cleanup, computed\<close>

text \<open>
  An instance: the first plate loses its only instance and goes, the other plates are
  renumbered 1 and 2; a plate without metadata gets one.
\<close>

theorem C3_cleanup_example:
  "clean_stale_plates
     [\<lparr>ms_metadata = Some [(''index'', ''1''), (''locked'', ''false'')],
       ms_instances = Some [[(''object_id'', ''9'')]]\<rparr>,
      \<lparr>ms_metadata = Some [(''index'', ''2'')],
       ms_instances = Some [[(''object_id'', ''4''), (''instance_id'', ''0'')], [(''object_id'', ''7'')]]\<rparr>,
      \<lparr>ms_metadata = None, ms_instances = Some [[(''object_id'', ''2'')]]\<rparr>]
     (set [''2'', ''4'']) =
     [\<lparr>ms_metadata = Some [(''index'', ''1'')],
       ms_instances = Some [[(''object_id'', ''4''), (''instance_id'', ''0'')]]\<rparr>,
      \<lparr>ms_metadata = Some [(''index'', ''2'')], ms_instances = Some [[(''object_id'', ''2'')]]\<rparr>] \<and>
   clean_stale_slice_plates
     [\<lparr>st_metadata = Some [(''index'', Some ''1'')],
       st_objects = Some [\<lparr>so_identify_id = ''10'', so_name = Some ''gone'', so_skipped = False\<rparr>]\<rparr>,
      \<lparr>st_metadata = Some [(''index'', Some ''2''), (''prediction'', None)],
       st_objects = Some [\<lparr>so_identify_id = ''11'', so_name = Some ''Cube'', so_skipped = False\<rparr>]\<rparr>]
     (set [''Cube'']) =
     [\<lparr>st_metadata = Some [(''index'', Some ''1''), (''prediction'', None)],
       st_objects = Some [\<lparr>so_identify_id = ''11'', so_name = Some ''Cube'', so_skipped = False\<rparr>]\<rparr>]"
proof -
  let ?ps = "[\<lparr>ms_metadata = Some [(''index'', ''1''), (''locked'', ''false'')],
       ms_instances = Some [[(''object_id'', ''9'')]]\<rparr>,
      \<lparr>ms_metadata = Some [(''index'', ''2'')],
       ms_instances = Some [[(''object_id'', ''4''), (''instance_id'', ''0'')], [(''object_id'', ''7'')]]\<rparr>,
      \<lparr>ms_metadata = None, ms_instances = Some [[(''object_id'', ''2'')]]\<rparr>]"
  let ?qs = "[\<lparr>st_metadata = Some [(''index'', Some ''1'')],
       st_objects = Some [\<lparr>so_identify_id = ''10'', so_name = Some ''gone'', so_skipped = False\<rparr>]\<rparr>,
      \<lparr>st_metadata = Some [(''index'', Some ''2''), (''prediction'', None)],
       st_objects = Some [\<lparr>so_identify_id = ''11'', so_name = Some ''Cube'', so_skipped = False\<rparr>]\<rparr>]"
  have a: "clean_stale_plates ?ps (set [''2'', ''4'']) =
     [\<lparr>ms_metadata = Some [(''index'', ''1'')],
       ms_instances = Some [[(''object_id'', ''4''), (''instance_id'', ''0'')]]\<rparr>,
      \<lparr>ms_metadata = Some [(''index'', ''2'')], ms_instances = Some [[(''object_id'', ''2'')]]\<rparr>]"
    by code_simp
  have b: "clean_stale_slice_plates ?qs (set [''Cube'']) =
     [\<lparr>st_metadata = Some [(''index'', Some ''1''), (''prediction'', None)],
       st_objects = Some [\<lparr>so_identify_id = ''11'', so_name = Some ''Cube'', so_skipped = False\<rparr>]\<rparr>]"
    by code_simp
  from C3_cleanup_idempotent_contiguous [of ?ps "set [''2'', ''4'']" ?qs "set [''Cube'']"] a b
  show ?thesis
    by simp
qed

subsection \<open>Metadata of the main model\<close>

lemma metadata_line_is_metadata: "is_metadata_line (metadata_line key val)"
  by (simp add: is_metadata_line_def metadata_line_def)

lemma component_line_not_metadata: "\<not> is_metadata_line (component_line c)"
  by (simp add: is_metadata_line_def component_line_def)

lemma item_line_not_metadata: "\<not> is_metadata_line (item_line bi)"
  by (simp add: is_metadata_line_def item_line_def)

lemma object_lines_no_metadata: "filter is_metadata_line (object_lines a) = []"
  by (simp add: object_lines_def is_metadata_line_def component_line_def filter_empty_conv)

lemma resources_no_metadata: "filter is_metadata_line (concat (map object_lines asms)) = []"
  by (induction asms) (simp_all add: object_lines_no_metadata)

lemma items_no_metadata: "filter is_metadata_line (map item_line bis) = []"
  by (simp add: filter_empty_conv item_line_not_metadata image_iff)

lemma round_trip_lines:
  "concat (map (\<lambda>(key, val).
       if key \<notin> set [''Application'', ''BambuStudio:3mfVersion''] \<and> val \<noteq> []
       then [metadata_line key val] else []) md) =
   map (\<lambda>(key, val). metadata_line key val)
     (filter (\<lambda>(key, val). key \<noteq> ''Application'' \<and> key \<noteq> ''BambuStudio:3mfVersion'' \<and> val \<noteq> []) md)"
  by (induction md) auto

lemma metadata_lines_kept:
  "filter is_metadata_line (map (\<lambda>(key, val). metadata_line key val) xs) =
   map (\<lambda>(key, val). metadata_line key val) xs"
  by (induction xs) (auto simp: metadata_line_is_metadata)

lemma metadata_block_all_metadata:
  "filter is_metadata_line (metadata_block version md) = metadata_block version md"
proof -
  have "is_metadata_line ('' <metadata name=\"Application\">'' @ x)" for x
    by (simp add: is_metadata_line_def)
  moreover have "is_metadata_line '' <metadata name=\"BambuStudio:3mfVersion\">1</metadata>''"
    by (simp add: is_metadata_line_def)
  ultimately show ?thesis
    by (simp add: metadata_block_def round_trip_lines Let_def metadata_lines_kept
        del: set_simps)
qed

text \<open>
  Claim C5, as the code has it. The metadata lines that the writer emits (the entries of
  its list \<^verbatim>\<open>lines\<close> that open a metadata element, before the list is joined) are, in
  this order: the \<^verbatim>\<open>Application\<close> entry (the stored value when the stored metadata has the
  key, else the version string of the host), the \<^verbatim>\<open>BambuStudio:3mfVersion\<close> entry, and the
  stored entries in their original order without those two keys and without the entries
  whose value is empty. No other emitted line opens a metadata element. This is a statement
  about the emitted lines and not about the joined text: the uuid, path and transform
  attributes are written unescaped, so one of them that carries a line break and markup
  adds to the text what the writer did not emit as a line of its own.
\<close>

theorem C5_metadata_elements:
  "filter is_metadata_line (main_model_lines version build_uuid assembly_objects build_items md) =
     ('' <metadata name=\"Application\">''
        @ esc (if md = [] then version else dict_get_or md ''Application'' version)
        @ ''</metadata>'')
     # '' <metadata name=\"BambuStudio:3mfVersion\">1</metadata>''
     # map (\<lambda>(key, val). metadata_line key val)
         (filter (\<lambda>(key, val).
            key \<noteq> ''Application'' \<and> key \<noteq> ''BambuStudio:3mfVersion'' \<and> val \<noteq> []) md)"
proof -
  have "filter is_metadata_line (main_model_lines version build_uuid assembly_objects build_items md)
      = metadata_block version md"
    by (simp add: main_model_lines_def metadata_block_all_metadata resources_no_metadata
        items_no_metadata)
       (simp add: is_metadata_line_def)
  then show ?thesis
    by (simp add: metadata_block_def round_trip_lines Let_def del: set_simps)
qed

text \<open>
  Claim C5 as the specification words it fails: with a stored \<^verbatim>\<open>Title\<close> whose value is
  empty, the remaining entries are \<^verbatim>\<open>Title\<close> and \<^verbatim>\<open>Designer\<close>, and the output has
  \<^verbatim>\<open>Designer\<close> only.
\<close>

theorem C5_empty_value_is_dropped:
  "drop 2 (filter is_metadata_line
     (main_model_lines ''BambuStudio-02.00.00.00'' ''b0'' [] []
        [(''Title'', []), (''Designer'', ''Kim'')])) = [metadata_line ''Designer'' ''Kim''] \<and>
   map (\<lambda>(key, val). metadata_line key val)
     (spec_remaining_metadata [(''Title'', []), (''Designer'', ''Kim'')]) =
     [metadata_line ''Title'' [], metadata_line ''Designer'' ''Kim''] \<and>
   drop 2 (filter is_metadata_line
     (main_model_lines ''BambuStudio-02.00.00.00'' ''b0'' [] []
        [(''Title'', []), (''Designer'', ''Kim'')])) \<noteq>
   map (\<lambda>(key, val). metadata_line key val)
     (spec_remaining_metadata [(''Title'', []), (''Designer'', ''Kim'')])"
  by code_simp


subsection \<open>Export without groups\<close>

text \<open>
  Claim C8. When no group is collected, the export returns \<^verbatim>\<open>CANCELLED\<close> and the file
  system is as it was: nothing is written at the target path.
\<close>

theorem C8_no_groups_cancels:
  "collect_export_groups ctx selection_only = [] \<Longrightarrow>
   export_3mf ctx fs filepath selection_only = (CANCELLED, fs)"
  by (simp add: export_3mf_def)

text \<open>With a group, the export finishes and the target path holds an archive.\<close>

lemma export_3mf_writes:
  "collect_export_groups ctx selection_only \<noteq> [] \<Longrightarrow>
   fst (export_3mf ctx fs filepath selection_only) = FINISHED \<and>
   snd (export_3mf ctx fs filepath selection_only) filepath \<noteq> None"
  by (simp add: export_3mf_def Let_def)

theorem C8_no_groups_cancels_witness:
  "export_3mf
     \<lparr>selected_objects = [],
      scene_objects = [BObject OTHER ''Camera'' None None [], BObject EMPTY ''Plate'' (Some 1) None []],
      project_settings = []\<rparr>
     Map.empty ''out.3mf'' False = (CANCELLED, Map.empty)"
proof -
  have "collect_export_groups
     \<lparr>selected_objects = [],
      scene_objects = [BObject OTHER ''Camera'' None None [], BObject EMPTY ''Plate'' (Some 1) None []],
      project_settings = []\<rparr> False = []"
    by code_simp
  then show ?thesis
    by (rule C8_no_groups_cancels)
qed


subsection \<open>Identifier assignment on export\<close>

lemma skip_used_free: "skip_used used_ids f \<notin> set used_ids"
proof (induction used_ids f rule: skip_used.induct)
  case (1 used_ids f)
  then show ?case
    by (subst skip_used.simps) simp
qed

text \<open>
  Within one sub-model the allocation does avoid the ids in use: when the stored part
  ids of a group are pairwise distinct, so are all its part ids.
\<close>

lemma part_ids_distinct:
  "set (stored_part_ids objs) \<subseteq> set used \<Longrightarrow> distinct (stored_part_ids objs) \<Longrightarrow>
   distinct (part_ids f used objs) \<and>
   set (part_ids f used objs) \<inter> (set used - set (stored_part_ids objs)) = {}"
proof (induction objs arbitrary: f used)
  case Nil
  then show ?case by simp
next
  case (Cons obj objs)
  show ?case
  proof (cases "bambu_part_id obj")
    case None
    let ?p = "skip_used used f"
    have free: "?p \<notin> set used"
      by (rule skip_used_free)
    from Cons.prems None have st: "set (stored_part_ids objs) \<subseteq> set (?p # used)"
      and d: "distinct (stored_part_ids objs)"
      by (auto simp: stored_part_ids_def)
    from Cons.IH [OF st d, of "?p + 1"]
    have ih: "distinct (part_ids (?p + 1) (?p # used) objs)"
      "set (part_ids (?p + 1) (?p # used) objs) \<inter> (set (?p # used) - set (stored_part_ids objs)) = {}"
      by simp_all
    from Cons.prems None free have "?p \<notin> set (stored_part_ids objs)"
      by (auto simp: stored_part_ids_def)
    with ih(2) have "?p \<notin> set (part_ids (?p + 1) (?p # used) objs)"
      by auto
    with ih free None show ?thesis
      by (auto simp: stored_part_ids_def Let_def)
  next
    case (Some p)
    from Cons.prems Some have st: "set (stored_part_ids objs) \<subseteq> set used"
      and d: "distinct (stored_part_ids objs)" and p: "p \<in> set used" "p \<notin> set (stored_part_ids objs)"
      by (auto simp: stored_part_ids_def)
    from Cons.IH [OF st d, of f]
    have ih: "distinct (part_ids f used objs)"
      "set (part_ids f used objs) \<inter> (set used - set (stored_part_ids objs)) = {}"
      by simp_all
    from ih(2) p have "p \<notin> set (part_ids f used objs)"
      by auto
    with ih Some show ?thesis
      by (auto simp: stored_part_ids_def)
  qed
qed

lemma build_sub_model_ids_distinct:
  "distinct (stored_part_ids mesh_objects) \<Longrightarrow> distinct (build_sub_model_ids mesh_objects)"
  using part_ids_distinct [of mesh_objects "stored_part_ids mesh_objects" 1]
  by (simp add: build_sub_model_ids_def)

text \<open>
  Claim C2 does not hold of the code. The comment above the group loop says that one
  counter makes the part ids unique across all sub-models, but the counter numbers the
  assembly objects only, and every call of \<^verbatim>\<open>_build_sub_model\<close> starts its own
  \<^verbatim>\<open>fallback_id\<close> at 1. A scene of two mesh objects without stored ids exports as
  assembly objects 1 and 2, each with a part 1.
\<close>

theorem C2_part_ids_repeat:
  "export_ids (collect_export_groups
     \<lparr>selected_objects = [],
      scene_objects = [BObject MESH ''Cube'' None None [], BObject MESH ''Sphere'' None None []],
      project_settings = []\<rparr> False) = [(1, [1]), (2, [1])] \<and>
   \<not> distinct (concat (map snd (export_ids (collect_export_groups
     \<lparr>selected_objects = [],
      scene_objects = [BObject MESH ''Cube'' None None [], BObject MESH ''Sphere'' None None []],
      project_settings = []\<rparr> False))))"
  by code_simp

end
